theory Spec2Isabelle
  imports Main "HOL-Library.Sublist"
begin

section \<open>Go values as the package sees them through reflection\<close>

text \<open>
  The package receives its arguments as \<^verbatim>\<open>interface{}\<close> and inspects them with
  \<^verbatim>\<open>reflect\<close>. A dynamic value is modelled by the datatype below; it keeps exactly the
  distinctions the modelled functions make: the reflect kind, pointer indirection, the
  elements of a slice or array, and which of the special struct types a value has.
  \<^item> \<open>VNil\<close>: the nil interface; it also stands for the zero \<^verbatim>\<open>reflect.Value\<close>,
    whose kind is Invalid;
  \<^item> \<open>VRaw\<close>: the package's own string type \<^verbatim>\<open>Raw\<close>;
  \<^item> \<open>VBytes\<close>: the type \<^verbatim>\<open>[]byte\<close>; \<open>VSlice\<close>: any other slice or array;
  \<^item> \<open>VPtr None\<close>: a typed nil pointer; \<open>VPtr (Some v)\<close>: a pointer to \<open>v\<close>;
  \<^item> \<open>VTime\<close>: \<^verbatim>\<open>time.Time\<close>; \<open>VGTime s\<close>: \<^verbatim>\<open>gtime.Time\<close> whose \<^verbatim>\<open>String()\<close> is \<open>s\<close>;
  \<^item> \<open>VStruct name so\<close>: any other struct type; \<open>so = Some s\<close> when the type has a
    method \<^verbatim>\<open>String() string\<close> (on the value receiver) returning \<open>s\<close>.
\<close>

datatype gval =
    VNil
  | VBool bool
  | VInt int
  | VStr string
  | VRaw string
  | VBytes string
  | VSlice "gval list"
  | VPtr "gval option"
  | VTime string
  | VGTime string
  | VStruct string "string option"

datatype kind = KInvalid | KBool | KInt | KString | KSlice | KPtr | KStruct

fun Kind :: "gval \<Rightarrow> kind" where
  "Kind VNil = KInvalid"
| "Kind (VBool b) = KBool"
| "Kind (VInt i) = KInt"
| "Kind (VStr s) = KString"
| "Kind (VRaw s) = KString"
| "Kind (VBytes b) = KSlice"
| "Kind (VSlice xs) = KSlice"
| "Kind (VPtr p) = KPtr"
| "Kind (VTime t) = KStruct"
| "Kind (VGTime t) = KStruct"
| "Kind (VStruct n so) = KStruct"

text \<open>\<^verbatim>\<open>reflect.Value.Elem\<close> on a pointer: the pointee, or the zero Value for a nil pointer.
  The code calls it only on values whose kind is \<^verbatim>\<open>Ptr\<close>.\<close>

fun Elem :: "gval \<Rightarrow> gval" where
  "Elem (VPtr (Some v)) = v"
| "Elem v = VNil"

text \<open>\<^verbatim>\<open>reflect.Value.Index(i).Interface()\<close> for all \<open>i\<close>: the elements of a slice or array.
  The elements of a \<^verbatim>\<open>[]byte\<close> are its bytes as integers.\<close>

fun Elements :: "gval \<Rightarrow> gval list" where
  "Elements (VSlice xs) = xs"
| "Elements (VBytes b) = map (\<lambda>c. VInt (of_char c)) b"
| "Elements v = []"

definition Len :: "gval \<Rightarrow> nat" where
  "Len v = length (Elements v)"

section \<open>Errors, records and results\<close>

text \<open>An \<^verbatim>\<open>error\<close> is the sentinel \<^verbatim>\<open>sql.ErrNoRows\<close> (aliased as \<^verbatim>\<open>ErrNoRows\<close> in gdb.go)
  or an error identified by its message. A Go \<^verbatim>\<open>error\<close> result is an \<open>error option\<close>,
  \<open>None\<close> being nil.\<close>

datatype error = ErrNoRows | Error string

text \<open>\<^verbatim>\<open>Record\<close> is \<^verbatim>\<open>map[string]Value\<close>: \<open>None\<close> is the nil map. \<^verbatim>\<open>Result\<close> is
  \<^verbatim>\<open>[]Record\<close>; the nil slice is the empty list.\<close>

type_synonym Record = "(string \<times> string) list option"
type_synonym Result = "Record list"

text \<open>gdb\_type\_record.go, \<^verbatim>\<open>Record.IsEmpty\<close>: \<^verbatim>\<open>len(r) == 0\<close>.\<close>

definition Record_IsEmpty :: "Record \<Rightarrow> bool" where
  "Record_IsEmpty r = (case r of None \<Rightarrow> True | Some m \<Rightarrow> length m = 0)"

text \<open>The \<^verbatim>\<open>pointer interface{}\<close> parameter of the result mapper: an ordinary value, or
  an interface holding a \<^verbatim>\<open>reflect.Value\<close> (which \<^verbatim>\<open>Record.Struct\<close> treats specially).\<close>

datatype target = Plain gval | Reflected gval

text \<open>\<^verbatim>\<open>reflect.ValueOf(pointer)\<close>: a \<^verbatim>\<open>reflect.Value\<close> is itself a struct.\<close>

fun ValueOf :: "target \<Rightarrow> gval" where
  "ValueOf (Plain v) = v"
| "ValueOf (Reflected v) = VStruct ''reflect.Value'' (Some ''<reflect.Value>'')"

text \<open>
  gdb\_type\_record.go, \<^verbatim>\<open>Record.Struct\<close>. The library predicate \<^verbatim>\<open>empty.IsNil(pointer, true)\<close>
  and the conversion \<^verbatim>\<open>convertMapToStruct\<close> (which ends in the library's \<^verbatim>\<open>gconv.Struct\<close>)
  are parameters.
\<close>

definition Record_Struct ::
  "(target \<Rightarrow> bool \<Rightarrow> bool) \<Rightarrow> (Record \<Rightarrow> target \<Rightarrow> error option) \<Rightarrow>
   Record \<Rightarrow> target \<Rightarrow> error option" where
  "Record_Struct IsNil convertMapToStruct r pointer =
    (if Record_IsEmpty r then
       (if \<not> IsNil pointer True then Some ErrNoRows else None)
     else (case pointer of
        Reflected v \<Rightarrow> convertMapToStruct r pointer
      | Plain v \<Rightarrow>
         (let reflectValue = ValueOf pointer; reflectKind = Kind reflectValue in
          if reflectKind \<noteq> KPtr then
            Some (Error ''parameter should be type of *struct/**struct'')
          else
            (let reflectValue = Elem reflectValue; reflectKind = Kind reflectValue in
             if reflectKind = KInvalid then
               Some (Error ''parameter is an invalid pointer, maybe nil'')
             else if reflectKind \<noteq> KPtr \<and> reflectKind \<noteq> KStruct then
               Some (Error ''parameter should be type of *struct/**struct'')
             else convertMapToStruct r pointer))))"

text \<open>
  The library function \<^verbatim>\<open>empty.IsNil(value, traceSource)\<close> of github.com/gogf/gf, as far
  as the values above go: nil interfaces are nil; a pointer is nil when it is nil itself,
  or, with \<open>traceSource\<close>, when following the chain of pointers ends in a nil pointer.
  It is used where a concrete instance of the parameter is needed.
\<close>

fun traceNil :: "gval \<Rightarrow> bool" where
  "traceNil (VPtr None) = True"
| "traceNil (VPtr (Some v)) = traceNil v"
| "traceNil VNil = True"
| "traceNil v = False"

fun valueIsNil :: "gval \<Rightarrow> bool \<Rightarrow> bool" where
  "valueIsNil (VPtr None) traceSource = True"
| "valueIsNil (VPtr (Some v)) traceSource = (traceSource \<and> traceNil v)"
| "valueIsNil VNil traceSource = True"
| "valueIsNil v traceSource = False"

fun empty_IsNil :: "target \<Rightarrow> bool \<Rightarrow> bool" where
  "empty_IsNil (Plain v) traceSource = valueIsNil v traceSource"
| "empty_IsNil (Reflected v) traceSource = valueIsNil v traceSource"

text \<open>
  unnamed/part\_005, \<^verbatim>\<open>Result.Structs\<close>. The result is the returned error together with the
  value \<open>pointer\<close> holds afterwards. The conversion of a non-empty result (the loop over
  the rows with \<^verbatim>\<open>reflect.New\<close>, \<^verbatim>\<open>Record.Struct\<close> and the final \<^verbatim>\<open>Set\<close>) is the parameter
  \<open>convertRows\<close>.
\<close>

definition Result_Structs ::
  "(Result \<Rightarrow> target \<Rightarrow> error option \<times> target) \<Rightarrow> Result \<Rightarrow> target \<Rightarrow> error option \<times> target" where
  "Result_Structs convertRows r pointer =
    (let reflectValue = ValueOf pointer; reflectKind = Kind reflectValue in
     if reflectKind \<noteq> KPtr then
       (Some (Error ''parameter should be type of *[]struct/*[]*struct''), pointer)
     else
       (let reflectValue = Elem reflectValue; reflectKind = Kind reflectValue in
        if reflectKind \<noteq> KSlice then
          (Some (Error ''parameter should be type of *[]struct/*[]*struct''), pointer)
        else if length r = 0 then
          (if Len reflectValue > 0 \<and> Kind (hd (Elements reflectValue)) \<noteq> KPtr
           then (Some ErrNoRows, pointer)
           else (None, pointer))
        else convertRows r pointer))"


section \<open>ASCII string helpers of the libraries\<close>

text \<open>
  The package works on Go strings through \<^verbatim>\<open>strings\<close>, \<^verbatim>\<open>gstr\<close> and \<^verbatim>\<open>gregex\<close>. A string is
  its list of bytes. The functions below are the library functions the modelled code
  calls, for ASCII text (case folding touches the letters A to Z only).
\<close>

definition ToLower :: "string \<Rightarrow> string" where
  "ToLower s = map (\<lambda>c. case map_of (zip ''ABCDEFGHIJKLMNOPQRSTUVWXYZ''
                                      ''abcdefghijklmnopqrstuvwxyz'') c of
                           None \<Rightarrow> c | Some l \<Rightarrow> l) s"

text \<open>\<^verbatim>\<open>strings.Index\<close> / \<^verbatim>\<open>gstr.Pos\<close>: the index of the first occurrence, or \<open>-1\<close>.\<close>

fun Pos_at :: "nat \<Rightarrow> string \<Rightarrow> string \<Rightarrow> int" where
  "Pos_at i [] needle = (if needle = [] then int i else -1)"
| "Pos_at i (c # cs) needle =
     (if prefix needle (c # cs) then int i else Pos_at (Suc i) cs needle)"

definition Pos :: "string \<Rightarrow> string \<Rightarrow> int" where
  "Pos haystack needle = Pos_at 0 haystack needle"

text \<open>\<^verbatim>\<open>gstr.PosI\<close>: \<open>-1\<close> on the empty haystack, else the index in the lower-cased text.\<close>

definition PosI :: "string \<Rightarrow> string \<Rightarrow> int" where
  "PosI haystack needle =
     (if length haystack = 0 then -1 else Pos (ToLower haystack) (ToLower needle))"

definition Contains :: "string \<Rightarrow> string \<Rightarrow> bool" where
  "Contains s substr = (Pos s substr \<ge> 0)"

definition ContainsI :: "string \<Rightarrow> string \<Rightarrow> bool" where
  "ContainsI s substr = (PosI s substr \<noteq> -1)"

text \<open>\<^verbatim>\<open>gstr.SubStr(str, start, length)\<close> for \<open>0 \<le> start\<close> and \<open>0 \<le> length\<close>.\<close>

definition SubStr :: "string \<Rightarrow> nat \<Rightarrow> nat \<Rightarrow> string" where
  "SubStr str start len = take len (drop start str)"

text \<open>\<^verbatim>\<open>strings.Repeat\<close>.\<close>

definition Repeat :: "string \<Rightarrow> nat \<Rightarrow> string" where
  "Repeat s n = concat (replicate n s)"

section \<open>Single-record queries\<close>

text \<open>unnamed/part\_001, \<^verbatim>\<open>Core.One\<close>; \<open>dbAll\<close> is the interface call \<^verbatim>\<open>c.DB.All\<close>.\<close>

definition Core_One ::
  "(string \<Rightarrow> gval list \<Rightarrow> Result \<times> error option) \<Rightarrow> string \<Rightarrow> gval list \<Rightarrow> Record \<times> error option" where
  "Core_One dbAll sql args =
    (case dbAll sql args of
       (list, Some err) \<Rightarrow> (None, Some err)
     | (list, None) \<Rightarrow> (if length list > 0 then (hd list, None) else (None, None)))"

section \<open>The model\<close>

text \<open>
  gdb\_model.go, \<^verbatim>\<open>Model\<close>: the fields the modelled methods read. \<open>tx\<close> is the pointer to
  the transaction the model is bound to (\<open>None\<close> is nil), \<open>whereHolder\<close> the list of
  conditions with their operator (\<^verbatim>\<open>whereHolderWhere = 1\<close>), condition and arguments.
\<close>

type_synonym Link = nat

record Model =
  tx :: "nat option"
  tables :: string
  whereHolder :: "(nat \<times> gval \<times> gval list) list"
  cacheEnabled :: bool
  cacheDuration :: int
  cacheName :: string
  unscoped :: bool

definition whereHolderWhere :: nat where
  "whereHolderWhere = 1"

text \<open>\<^verbatim>\<open>Model.Where\<close> (in the file stored as go.mod): appends a holder to the model.\<close>

definition Model_Where :: "Model \<Rightarrow> gval \<Rightarrow> gval list \<Rightarrow> Model" where
  "Model_Where m w args = m\<lparr>whereHolder := whereHolder m @ [(whereHolderWhere, w, args)]\<rparr>"

text \<open>
  What the model's methods call but this development does not define: the methods of the
  \<^verbatim>\<open>DB\<close> interface, methods of \<^verbatim>\<open>Model\<close> whose source is not among the files
  (\<^verbatim>\<open>getLink\<close>, \<^verbatim>\<open>mergeArguments\<close>, \<^verbatim>\<open>getSoftFieldNameDeleted\<close>, \<^verbatim>\<open>formatCondition\<close>),
  \<^verbatim>\<open>Model.doGetAll\<close>, and library functions (\<^verbatim>\<open>json.Unmarshal\<close>, \<^verbatim>\<open>gconv.String\<close>,
  \<^verbatim>\<open>gtime.Now().String()\<close>). An \<^verbatim>\<open>sql.Result\<close> is represented by the number of affected
  rows, \<open>None\<close> being nil.
\<close>

record collaborators =
  DoGetAll :: "Link \<Rightarrow> string \<Rightarrow> gval list \<Rightarrow> Result \<times> error option"
  DoUpdate :: "Link \<Rightarrow> string \<Rightarrow> string \<Rightarrow> string \<Rightarrow> gval list \<Rightarrow> nat option \<times> error option"
  DoDelete :: "Link \<Rightarrow> string \<Rightarrow> string \<Rightarrow> gval list \<Rightarrow> nat option \<times> error option"
  QuoteString :: "string \<Rightarrow> string"
  getLink :: "Model \<Rightarrow> bool \<Rightarrow> Link"
  mergeArguments :: "Model \<Rightarrow> gval list \<Rightarrow> gval list"
  getSoftFieldNameDeleted :: "Model \<Rightarrow> string"
  formatCondition :: "Model \<Rightarrow> bool \<Rightarrow> bool \<Rightarrow> string \<times> string \<times> gval list"
  doGetAll :: "Model \<Rightarrow> bool \<Rightarrow> Result \<times> error option"
  jsonUnmarshal :: "string \<Rightarrow> Result \<times> error option"
  gconvString :: "gval list \<Rightarrow> string"
  gtimeNow :: string

text \<open>
  unnamed/part\_004, \<^verbatim>\<open>Model.One\<close>. With conditions given, the call goes through
  \<^verbatim>\<open>m.Where(where[0], where[1:]...).One()\<close>, which is the body below on the new model.
\<close>

definition Model_One :: "collaborators \<Rightarrow> Model \<Rightarrow> gval list \<Rightarrow> Record \<times> error option" where
  "Model_One db m wheres =
    (let m' = (case wheres of [] \<Rightarrow> m | w # ws \<Rightarrow> Model_Where m w ws) in
     case doGetAll db m' True of
       (all, Some err) \<Rightarrow> (None, Some err)
     | (all, None) \<Rightarrow> (if length all > 0 then (hd all, None) else (None, None)))"

text \<open>unnamed/part\_004, \<^verbatim>\<open>Model.Struct\<close>: \<^verbatim>\<open>m.One(where...)\<close>, then \<^verbatim>\<open>one.Struct(pointer)\<close>.\<close>

definition Model_Struct ::
  "(target \<Rightarrow> bool \<Rightarrow> bool) \<Rightarrow> (Record \<Rightarrow> target \<Rightarrow> error option) \<Rightarrow>
   collaborators \<Rightarrow> Model \<Rightarrow> target \<Rightarrow> gval list \<Rightarrow> error option" where
  "Model_Struct IsNil convertMapToStruct db m pointer wheres =
    (case Model_One db m wheres of
       (one, Some err) \<Rightarrow> Some err
     | (one, None) \<Rightarrow> Record_Struct IsNil convertMapToStruct one pointer)"

section \<open>The cache and the statements sent to the database\<close>

text \<open>
  The state outside the model: the query cache (\<^verbatim>\<open>gcache\<close>), a map from keys to a stored
  value with the duration it was stored with, and the list of the statements handed to the
  database so far. A cached value is a \<^verbatim>\<open>Result\<close> held in memory or, for other cache
  adapters, its serialized bytes.
\<close>

datatype cached = InMemory Result | Serialized string

datatype statement =
    Query Link string "gval list"
  | Update Link string string string "gval list"
  | Delete Link string string "gval list"

record dbstate =
  cache :: "string \<rightharpoonup> cached \<times> int"
  executed :: "statement list"

text \<open>
  unnamed/part\_004, \<^verbatim>\<open>Model.doGetAllBySql\<close>. Errors of \<^verbatim>\<open>cacheObj.Remove\<close> and
  \<^verbatim>\<open>cacheObj.Set\<close> are only logged there, so they do not appear. \<open>lookup\<close> is what
  \<^verbatim>\<open>cacheObj.GetVar\<close> finds; it is only read when the cache is enabled and the model has
  no transaction.
\<close>

definition doGetAllBySql ::
  "collaborators \<Rightarrow> Model \<Rightarrow> string \<Rightarrow> gval list \<Rightarrow> dbstate \<Rightarrow> (Result \<times> error option) \<times> dbstate" where
  "doGetAllBySql db m sql args st =
    (let cacheKey =
           (if cacheEnabled m \<and> tx m = None then
              (if length (cacheName m) = 0 then sql @ '', @PARAMS:'' @ gconvString db args
               else cacheName m)
            else '''');
         lookup = (if cacheEnabled m \<and> tx m = None then cache st cacheKey else None)
     in case lookup of
       Some (InMemory result, d) \<Rightarrow> ((result, None), st)
     | Some (Serialized bytes, d) \<Rightarrow>
         (case jsonUnmarshal db bytes of
            (result, Some err) \<Rightarrow> (([], Some err), st)
          | (result, None) \<Rightarrow> ((result, None), st))
     | None \<Rightarrow>
         (let link = getLink db m False;
              merged = mergeArguments db m args;
              (result, err) = DoGetAll db link sql merged;
              st1 = st\<lparr>executed := executed st @ [Query link sql merged]\<rparr>;
              st2 = (if cacheKey \<noteq> '''' \<and> err = None then
                       (if cacheDuration m < 0
                        then st1\<lparr>cache := (cache st1)(cacheKey := None)\<rparr>
                        else st1\<lparr>cache := (cache st1)(cacheKey \<mapsto> (InMemory result, cacheDuration m))\<rparr>)
                     else st1)
          in ((result, err), st2)))"

text \<open>gdb\_core\_utility.go (second file stored there), \<^verbatim>\<open>Model.checkAndRemoveCache\<close>.\<close>

definition checkAndRemoveCache :: "Model \<Rightarrow> dbstate \<Rightarrow> dbstate" where
  "checkAndRemoveCache m st =
    (if cacheEnabled m \<and> cacheDuration m < 0 \<and> length (cacheName m) > 0
     then st\<lparr>cache := (cache st)(cacheName m := None)\<rparr> else st)"

text \<open>
  gdb\_model\_delete.go, \<^verbatim>\<open>Model.Delete\<close>. With conditions given, the call goes through
  \<^verbatim>\<open>m.Where(where[0], where[1:]...).Delete()\<close>, which is the body below on the new model.
  The deferred function runs last and removes the cache entry when no error is returned.
\<close>

definition Model_Delete ::
  "collaborators \<Rightarrow> Model \<Rightarrow> gval list \<Rightarrow> dbstate \<Rightarrow> (nat option \<times> error option) \<times> dbstate" where
  "Model_Delete db m wheres st =
    (let m' = (case wheres of [] \<Rightarrow> m | w # ws \<Rightarrow> Model_Where m w ws);
         fieldNameDelete = getSoftFieldNameDeleted db m';
         (conditionWhere, conditionExtra, conditionArgs) = formatCondition db m' False False;
         ((result, err), st1) =
           (if \<not> unscoped m' \<and> fieldNameDelete \<noteq> '''' then
              (let link = getLink db m' True;
                   data = QuoteString db fieldNameDelete @ ''=?'';
                   condition = conditionWhere @ conditionExtra;
                   args = VStr (gtimeNow db) # conditionArgs
               in (DoUpdate db link (tables m') data condition args,
                   st\<lparr>executed := executed st @ [Update link (tables m') data condition args]\<rparr>))
            else
              (let conditionStr = conditionWhere @ conditionExtra in
               if \<not> ContainsI conditionStr '' WHERE '' then
                 ((None, Some (Error ''there should be WHERE condition statement for DELETE operation'')), st)
               else
                 (let link = getLink db m' True
                  in (DoDelete db link (tables m') conditionStr conditionArgs,
                      st\<lparr>executed := executed st @ [Delete link (tables m') conditionStr conditionArgs]\<rparr>))))
     in ((result, err), if err = None then checkAndRemoveCache m' st1 else st1))"

section \<open>The transaction helper\<close>

text \<open>
  What running the closure \<^verbatim>\<open>f(tx)\<close> does: it returns an error (\<open>None\<close> is nil) or it
  panics. A panic value is represented by its \<^verbatim>\<open>%v\<close> rendering; \<open>Panics None\<close> is
  \<^verbatim>\<open>panic(nil)\<close>, for which \<^verbatim>\<open>recover()\<close> returns nil in the Go version of go.mod (1.15).
\<close>

datatype outcome = Returns "error option" | Panics "string option"

text \<open>\<^verbatim>\<open>recover()\<close> in the deferred function: the panic value, nil when not panicking.\<close>

fun recover :: "outcome \<Rightarrow> string option" where
  "recover (Returns e) = None"
| "recover (Panics v) = v"

datatype tx_call = Rollback | Commit

text \<open>
  unnamed/part\_001, \<^verbatim>\<open>Core.Transaction\<close>. \<open>begin\<close> is the result of \<^verbatim>\<open>c.DB.Begin()\<close>,
  \<open>rollback\<close> and \<open>commit\<close> are \<^verbatim>\<open>tx.Rollback()\<close> and \<^verbatim>\<open>tx.Commit()\<close>. The result is the
  returned error and the calls made on the transaction, in order. The named result
  \<^verbatim>\<open>err\<close> is nil after a successful \<^verbatim>\<open>Begin\<close> and is assigned by \<^verbatim>\<open>err = f(tx)\<close> only when
  \<^verbatim>\<open>f\<close> returns.
\<close>

definition Transaction ::
  "error + 'tx \<Rightarrow> ('tx \<Rightarrow> outcome) \<Rightarrow> ('tx \<Rightarrow> error option) \<Rightarrow> ('tx \<Rightarrow> error option) \<Rightarrow>
   error option \<times> tx_call list" where
  "Transaction begin f rollback commit =
    (case begin of
       Inl err \<Rightarrow> (Some err, [])
     | Inr t \<Rightarrow>
        (let out = f t;
             err0 = (case out of Returns e \<Rightarrow> e | Panics v \<Rightarrow> None);
             err1 = (if err0 = None then
                       (case recover out of Some e \<Rightarrow> Some (Error e) | None \<Rightarrow> err0)
                     else err0)
         in if err1 \<noteq> None then
              (case rollback t of Some e \<Rightarrow> (Some e, [Rollback]) | None \<Rightarrow> (err1, [Rollback]))
            else
              (case commit t of Some e \<Rightarrow> (Some e, [Commit]) | None \<Rightarrow> (err1, [Commit]))))"


section \<open>The argument binder\<close>

text \<open>\<^verbatim>\<open>gstr.Count(s, "?")\<close> for a needle of one byte: the number of its occurrences.\<close>

definition Count :: "string \<Rightarrow> char \<Rightarrow> nat" where
  "Count s c = count_list s c"

text \<open>The loop \<^verbatim>\<open>for reflectKind == reflect.Ptr { reflectValue = reflectValue.Elem() }\<close>:
  the value behind a chain of pointers, the zero Value behind a nil pointer.\<close>

fun indirect :: "gval \<Rightarrow> gval" where
  "indirect (VPtr (Some v)) = indirect v"
| "indirect (VPtr None) = VNil"
| "indirect v = v"

text \<open>The type assertion \<^verbatim>\<open>arg.([]byte)\<close>.\<close>

fun isBytes :: "gval \<Rightarrow> bool" where
  "isBytes (VBytes b) = True"
| "isBytes v = False"

text \<open>The type assertion \<^verbatim>\<open>arg.(apiString)\<close> where the struct case reaches it: a struct whose
  type has \<^verbatim>\<open>String()\<close>, or a pointer to one, yields the string; a pointer to a pointer has
  no methods.\<close>

fun apiString :: "gval \<Rightarrow> string option" where
  "apiString (VStruct n so) = so"
| "apiString (VPtr (Some (VStruct n so))) = so"
| "apiString v = None"

text \<open>The type switch of \<^verbatim>\<open>case reflect.Struct\<close> in \<^verbatim>\<open>handleArguments\<close>: the value that is
  appended to \<^verbatim>\<open>newArgs\<close> for the argument \<open>arg\<close>.\<close>

fun structArgument :: "gval \<Rightarrow> gval" where
  "structArgument (VTime t) = VTime t"
| "structArgument (VPtr (Some (VTime t))) = VPtr (Some (VTime t))"
| "structArgument (VGTime s) = VStr s"
| "structArgument (VPtr (Some (VGTime s))) = VStr s"
| "structArgument arg = (case apiString arg of Some s \<Rightarrow> VStr s | None \<Rightarrow> arg)"

text \<open>
  The call \<^verbatim>\<open>gregex.ReplaceStringFunc(`\?`, newSql, func ...)\<close> of \<^verbatim>\<open>handleArguments\<close>: the
  text is scanned from the left and the closure is called on every \<open>?\<close>. The closure's
  variables are \<open>counter\<close> and \<open>replaced\<close> (fresh for every argument) and
  \<open>insertHolderCount\<close>; \<open>index\<close> is the argument's index and \<open>len\<close> the length of the
  slice. The result is the new text and the new \<open>insertHolderCount\<close>. The closure runs
  only on a \<open>?\<close>, and a slice of length 0 gets here only when the text has no \<open>?\<close>, so
  \<^verbatim>\<open>strings.Repeat\<close> never sees the count \<open>-1\<close>.
\<close>

fun replaceHolder :: "nat \<Rightarrow> nat \<Rightarrow> nat \<Rightarrow> bool \<Rightarrow> int \<Rightarrow> string \<Rightarrow> string \<times> int" where
  "replaceHolder index len counter replaced insertHolderCount [] = ([], insertHolderCount)"
| "replaceHolder index len counter replaced insertHolderCount (c # cs) =
    (if c \<noteq> CHR ''?'' then
       (case replaceHolder index len counter replaced insertHolderCount cs of
          (r, i) \<Rightarrow> (c # r, i))
     else if replaced then
       (case replaceHolder index len counter replaced insertHolderCount cs of
          (r, i) \<Rightarrow> (c # r, i))
     else if int (Suc counter) = int index + insertHolderCount + 1 then
       (case replaceHolder index len (Suc counter) True (insertHolderCount + int len - 1) cs of
          (r, i) \<Rightarrow> (''?'' @ Repeat '',?'' (len - 1) @ r, i))
     else
       (case replaceHolder index len (Suc counter) False insertHolderCount cs of
          (r, i) \<Rightarrow> (c # r, i)))"

text \<open>
  unnamed/part\_006, \<^verbatim>\<open>handleArguments\<close>: the loop over the arguments, with the number
  \<open>n\<close> of arguments, the index of the current one, \<open>insertHolderCount\<close>, and the text and
  the argument list built so far.
\<close>

fun handleArguments_loop ::
  "nat \<Rightarrow> nat \<Rightarrow> int \<Rightarrow> string \<Rightarrow> gval list \<Rightarrow> gval list \<Rightarrow> string \<times> gval list" where
  "handleArguments_loop n index insertHolderCount newSql newArgs [] = (newSql, newArgs)"
| "handleArguments_loop n index insertHolderCount newSql newArgs (arg # rest) =
    (if Kind (indirect arg) = KSlice then
       (if isBytes arg then
          handleArguments_loop n (Suc index) insertHolderCount newSql (newArgs @ [arg]) rest
        else if Len (indirect arg) = 0 \<and> Contains newSql ''?'' then
          (if PosI newSql '' WHERE '' = -1 then (''0=1'', [])
           else (SubStr newSql 0 (nat (PosI newSql '' WHERE '' + int (length '' WHERE ''))) @ ''0=1'', []))
        else if n = 1 \<and> Count newSql CHR ''?'' = Len (indirect arg) then
          handleArguments_loop n (Suc index) insertHolderCount newSql
            (newArgs @ Elements (indirect arg)) rest
        else
          handleArguments_loop n (Suc index)
            (snd (replaceHolder index (Len (indirect arg)) 0 False insertHolderCount newSql))
            (fst (replaceHolder index (Len (indirect arg)) 0 False insertHolderCount newSql))
            (newArgs @ Elements (indirect arg)) rest)
     else if Kind (indirect arg) = KStruct then
       handleArguments_loop n (Suc index) insertHolderCount newSql
         (newArgs @ [structArgument arg]) rest
     else
       handleArguments_loop n (Suc index) insertHolderCount newSql (newArgs @ [arg]) rest)"

definition handleArguments :: "string \<Rightarrow> gval list \<Rightarrow> string \<times> gval list" where
  "handleArguments sql args = handleArguments_loop (length args) 0 0 sql [] args"

subsection \<open>What the binder is to compute\<close>

text \<open>
  The description of the binder, to compare \<^verbatim>\<open>handleArguments\<close> with. An argument is
  expanded when it is a slice or array, directly or behind pointers, and not a
  \<^verbatim>\<open>[]byte\<close>; it then stands for its elements. Every other argument stands for one value.
  In the text, the \<open>i\<close>-th \<open>?\<close> belongs to the \<open>i\<close>-th argument and is replaced by as many
  placeholders, separated by commas, as the argument has values.
\<close>

definition expanded :: "gval \<Rightarrow> gval list option" where
  "expanded arg =
     (if Kind (indirect arg) = KSlice \<and> \<not> isBytes arg then Some (Elements (indirect arg))
      else None)"

definition spec_values :: "gval \<Rightarrow> gval list" where
  "spec_values arg =
     (case expanded arg of
        Some xs \<Rightarrow> xs
      | None \<Rightarrow> [if Kind (indirect arg) = KStruct then structArgument arg else arg])"

definition spec_args :: "gval list \<Rightarrow> gval list" where
  "spec_args args = concat (map spec_values args)"

definition holders :: "nat \<Rightarrow> string" where
  "holders n = ''?'' @ Repeat '',?'' (n - 1)"

fun spec_sql :: "string \<Rightarrow> gval list \<Rightarrow> string" where
  "spec_sql [] args = []"
| "spec_sql (c # cs) [] = c # cs"
| "spec_sql (c # cs) (a # as) =
     (if c = CHR ''?'' then holders (length (spec_values a)) @ spec_sql cs as
      else c # spec_sql cs (a # as))"

section \<open>Composing a condition from a key and a value\<close>

text \<open>
  The regular expressions of the package, as predicates on ASCII text:
  \<^verbatim>\<open>quoteWordReg = ^[a-zA-Z0-9\-_]+$\<close> (unnamed/part\_006),
  \<^verbatim>\<open>regularFieldNameRegPattern = ^[\w\.\-\_]+$\<close> and
  \<^verbatim>\<open>lastOperatorRegPattern = [<>=]+\s*$\<close> (gdb.go). In Go's syntax \<^verbatim>\<open>\w\<close> is
  \<^verbatim>\<open>[0-9A-Za-z_]\<close>, \<^verbatim>\<open>\s\<close> is \<^verbatim>\<open>[\t\n\f\r ]\<close> and \<^verbatim>\<open>$\<close> is the end of the text.
\<close>

definition isWordChar :: "char \<Rightarrow> bool" where
  "isWordChar c =
     (c \<in> set ''abcdefghijklmnopqrstuvwxyzABCDEFGHIJKLMNOPQRSTUVWXYZ0123456789_'')"

definition isSpaceChar :: "char \<Rightarrow> bool" where
  "isSpaceChar c = (c \<in> set [CHR 0x09, CHR 0x0A, CHR 0x0C, CHR 0x0D, CHR '' ''])"

definition quoteWordReg :: "string \<Rightarrow> bool" where
  "quoteWordReg s = (s \<noteq> [] \<and> list_all (\<lambda>c. isWordChar c \<or> c = CHR ''-'') s)"

definition regularFieldName :: "string \<Rightarrow> bool" where
  "regularFieldName s =
     (s \<noteq> [] \<and> list_all (\<lambda>c. isWordChar c \<or> c = CHR ''.'' \<or> c = CHR ''-'') s)"

definition lastOperator :: "string \<Rightarrow> bool" where
  "lastOperator s =
     (case dropWhile isSpaceChar (rev s) of
        [] \<Rightarrow> False
      | c # cs \<Rightarrow> c \<in> set ''<>='')"

text \<open>\<^verbatim>\<open>gstr.ContainsAny\<close>, \<^verbatim>\<open>gstr.Trim\<close> with its default character mask (the ASCII part:
  tab, vertical tab, line feed, carriage return, form feed, space, NUL) and \<^verbatim>\<open>gstr.Equal\<close>
  (equality under case folding).\<close>

definition ContainsAny :: "string \<Rightarrow> string \<Rightarrow> bool" where
  "ContainsAny s chars = list_ex (\<lambda>c. c \<in> set s) chars"

definition isTrimChar :: "char \<Rightarrow> bool" where
  "isTrimChar c =
     (c \<in> set [CHR 0x09, CHR 0x0B, CHR 0x0A, CHR 0x0D, CHR 0x0C, CHR '' '', CHR 0x00])"

definition Trim :: "string \<Rightarrow> string" where
  "Trim s = rev (dropWhile isTrimChar (rev (dropWhile isTrimChar s)))"

definition Equal :: "string \<Rightarrow> string \<Rightarrow> bool" where
  "Equal a b = (ToLower a = ToLower b)"

text \<open>unnamed/part\_006, \<^verbatim>\<open>doQuoteWord\<close>; \<^verbatim>\<open>Core.QuoteWord\<close> (gdb\_core\_utility.go) calls it
  with the quote characters of the database, \<^verbatim>\<open>c.DB.GetChars()\<close>.\<close>

definition doQuoteWord :: "string \<Rightarrow> string \<Rightarrow> string \<Rightarrow> string" where
  "doQuoteWord s charLeft charRight =
     (if quoteWordReg s \<and> \<not> ContainsAny s (charLeft @ charRight)
      then charLeft @ s @ charRight else s)"

text \<open>The end of the default branch of \<^verbatim>\<open>formatWhereKeyValue\<close>: a \<^verbatim>\<open>Raw\<close> value is written
  into the buffer, any other value becomes an argument.\<close>

fun writeValue :: "string \<Rightarrow> gval list \<Rightarrow> gval \<Rightarrow> string \<times> gval list" where
  "writeValue buffer newArgs (VRaw s) = (buffer @ s, newArgs)"
| "writeValue buffer newArgs v = (buffer, newArgs @ [v])"

text \<open>
  unnamed/part\_006, \<^verbatim>\<open>formatWhereKeyValue\<close>. \<open>chars\<close> are the quote characters of the
  database; \<open>IsNil\<close> and \<open>IsEmpty\<close> are the library predicates \<^verbatim>\<open>empty.IsNil\<close> (here called
  on the \<^verbatim>\<open>reflect.Value\<close>, without source tracing) and \<^verbatim>\<open>empty.IsEmpty\<close>. The result is the
  buffer and the argument list afterwards. The kind of the value is taken without
  following pointers.
\<close>

definition formatWhereKeyValue ::
  "string \<times> string \<Rightarrow> (target \<Rightarrow> bool \<Rightarrow> bool) \<Rightarrow> (gval \<Rightarrow> bool) \<Rightarrow>
   string \<Rightarrow> gval list \<Rightarrow> string \<Rightarrow> gval \<Rightarrow> string \<times> gval list" where
  "formatWhereKeyValue chars IsNil IsEmpty buffer0 newArgs key val =
    (let quotedKey = doQuoteWord key (fst chars) (snd chars);
         buffer = (if length buffer0 > 0 then buffer0 @ '' AND '' else buffer0)
     in if Kind val = KSlice then
          (let count = Count quotedKey CHR ''?'' in
           if count = 0 then (buffer @ quotedKey @ '' IN(?)'', newArgs @ [val])
           else if count \<noteq> Len val then (buffer @ quotedKey, newArgs @ [val])
           else (buffer @ quotedKey, newArgs @ Elements val))
        else if val = VNil \<or> IsNil (Reflected val) False then
          (if regularFieldName key then (buffer @ quotedKey @ '' IS NULL'', newArgs)
           else (buffer @ quotedKey, newArgs))
        else
          (let quotedKey = Trim quotedKey in
           if Pos quotedKey ''?'' = -1 then
             (if length quotedKey > length '' like'' \<and>
                 Equal (drop (length quotedKey - length '' like'') quotedKey) '' like''
              then writeValue (buffer @ quotedKey @ '' ?'') newArgs val
              else if lastOperator quotedKey
              then writeValue (buffer @ quotedKey @ '' ?'') newArgs val
              else if regularFieldName key
              then writeValue (buffer @ quotedKey @ ''=?'') newArgs val
              else if IsEmpty val then (buffer @ quotedKey, newArgs)
              else writeValue (buffer @ quotedKey @ ''=?'') newArgs val)
           else writeValue (buffer @ quotedKey) newArgs val))"


section \<open>The weighted node selector\<close>












section \<open>Concrete collaborators\<close>

text \<open>Instances of the parameters, for evaluating the functions above on concrete input:
  a database without rows whose statements succeed, a model on the table \<open>user\<close>, and
  conversions that succeed.\<close>

definition noRows :: "string \<Rightarrow> gval list \<Rightarrow> Result \<times> error option" where
  "noRows sql args = ([], None)"

definition convertOk :: "Record \<Rightarrow> target \<Rightarrow> error option" where
  "convertOk r pointer = None"

definition convertRowsOk :: "Result \<Rightarrow> target \<Rightarrow> error option \<times> target" where
  "convertRowsOk r pointer = (None, pointer)"

definition emptyDb :: collaborators where
  "emptyDb = \<lparr>
     DoGetAll = (\<lambda>link sql args. ([], None)),
     DoUpdate = (\<lambda>link table data condition args. (Some 1, None)),
     DoDelete = (\<lambda>link table condition args. (Some 1, None)),
     QuoteString = (\<lambda>s. s),
     getLink = (\<lambda>m master. case tx m of Some t \<Rightarrow> t | None \<Rightarrow> 0),
     mergeArguments = (\<lambda>m args. args),
     getSoftFieldNameDeleted = (\<lambda>m. ''''),
     formatCondition = (\<lambda>m limit1 isCountStatement.
        if whereHolder m = [] then ('''', '''', []) else ('' WHERE id=?'', '''', [VInt 1])),
     doGetAll = (\<lambda>m limit1. ([], None)),
     jsonUnmarshal = (\<lambda>bytes. ([], None)),
     gconvString = (\<lambda>args. ''[]''),
     gtimeNow = ''2021-01-01 00:00:00'' \<rparr>"

definition softDeleteDb :: collaborators where
  "softDeleteDb = emptyDb\<lparr>getSoftFieldNameDeleted := (\<lambda>m. ''deleted_at'')\<rparr>"

definition userModel :: Model where
  "userModel = \<lparr> tx = None, tables = ''user'', whereHolder = [], cacheEnabled = False,
     cacheDuration = 0, cacheName = '''', unscoped = False \<rparr>"

definition emptyState :: dbstate where
  "emptyState = \<lparr> cache = Map.empty, executed = [] \<rparr>"

definition txModel :: Model where
  "txModel = userModel\<lparr> tx := Some 7, cacheEnabled := True, cacheName := ''users'' \<rparr>"

definition warmState :: dbstate where
  "warmState = \<lparr> cache = [''users'' \<mapsto> (InMemory [Some [(''id'', ''1'')]], 0)], executed = [] \<rparr>"

text \<open>An instance of \<^verbatim>\<open>empty.IsEmpty\<close> on the simple values: nil, zero, the empty string
  and false are empty.\<close>

fun simpleIsEmpty :: "gval \<Rightarrow> bool" where
  "simpleIsEmpty VNil = True"
| "simpleIsEmpty (VInt i) = (i = 0)"
| "simpleIsEmpty (VStr s) = (s = [])"
| "simpleIsEmpty (VRaw s) = (s = [])"
| "simpleIsEmpty (VBool b) = (\<not> b)"
| "simpleIsEmpty (VPtr p) = (p = None)"
| "simpleIsEmpty v = (Elements v = [] \<and> Kind v = KSlice)"









section \<open>Verified properties\<close>

subsection \<open>The result mapper and the single-record queries\<close>

text \<open>
  Claim C10. A single-record query whose underlying query returns no rows and no error
  returns the nil record and the nil error, for \<^verbatim>\<open>Core.One\<close> and for \<^verbatim>\<open>Model.One\<close>
  (with or without conditions). The error either of them returns is always the error of
  the underlying query, so the query never produces \<^verbatim>\<open>ErrNoRows\<close> by itself; the sentinel
  appears when the nil record is mapped onto a target that is not nil, as \<^verbatim>\<open>Model.Struct\<close>
  does.
\<close>

theorem One_no_rows_is_nil_nil:
  "(dbAll sql args = ([], None) \<longrightarrow> Core_One dbAll sql args = (None, None)) \<and>
   (doGetAll db (case wheres of [] \<Rightarrow> m | w # ws \<Rightarrow> Model_Where m w ws) True = ([], None)
      \<longrightarrow> Model_One db m wheres = (None, None)) \<and>
   snd (Core_One dbAll sql args) = snd (dbAll sql args) \<and>
   snd (Model_One db m wheres) =
     snd (doGetAll db (case wheres of [] \<Rightarrow> m | w # ws \<Rightarrow> Model_Where m w ws) True) \<and>
   (doGetAll db (case wheres of [] \<Rightarrow> m | w # ws \<Rightarrow> Model_Where m w ws) True = ([], None)
      \<and> \<not> isNil pointer True
      \<longrightarrow> Model_Struct isNil conv db m pointer wheres = Some ErrNoRows)"
proof -
  have core: "snd (Core_One dbAll sql args) = snd (dbAll sql args)"
    by (cases "dbAll sql args") (auto simp: Core_One_def split: option.splits)
  have model: "snd (Model_One db m wheres) =
     snd (doGetAll db (case wheres of [] \<Rightarrow> m | w # ws \<Rightarrow> Model_Where m w ws) True)"
    by (cases "doGetAll db (case wheres of [] \<Rightarrow> m | w # ws \<Rightarrow> Model_Where m w ws) True")
       (auto simp: Model_One_def Let_def split: option.splits)
  show ?thesis
    using core model
    by (auto simp: Core_One_def Model_One_def Model_Struct_def Record_Struct_def
        Record_IsEmpty_def Let_def)
qed

theorem One_no_rows_is_nil_nil_witness:
  "Core_One noRows ''SELECT * FROM user WHERE id=?'' [VInt 1] = (None, None) \<and>
   Model_One emptyDb userModel [VStr ''id'', VInt 1] = (None, None) \<and>
   Model_Struct empty_IsNil convertOk emptyDb userModel
     (Plain (VPtr (Some (VStruct ''User'' None)))) [VStr ''id'', VInt 1] = Some ErrNoRows"
  using One_no_rows_is_nil_nil [where dbAll = noRows and sql = "''SELECT * FROM user WHERE id=?''"
      and args = "[VInt 1]" and db = emptyDb and wheres = "[VStr ''id'', VInt 1]"
      and m = userModel and isNil = empty_IsNil
      and pointer = "Plain (VPtr (Some (VStruct ''User'' None)))" and conv = convertOk]
  by (simp add: noRows_def emptyDb_def)

text \<open>
  Claim C7, as the code has it. Mapping a zero-row result onto a pointer to a slice
  leaves the target as it is and returns no error when the slice is empty or its first
  element is a pointer (\<^verbatim>\<open>*[]*struct\<close>); when the slice is non-empty and its first element
  is not a pointer (\<^verbatim>\<open>*[]struct\<close> with items) it returns \<^verbatim>\<open>ErrNoRows\<close>. Mapping an empty
  record onto a single-record target that is not nil returns the sentinel \<^verbatim>\<open>ErrNoRows\<close>,
  and onto a nil target returns no error.
\<close>

theorem zero_rows_mapping:
  "Result_Structs convertRows [] (Plain (VPtr (Some (VSlice xs)))) =
     (if xs \<noteq> [] \<and> Kind (hd xs) \<noteq> KPtr then Some ErrNoRows else None,
      Plain (VPtr (Some (VSlice xs)))) \<and>
   (Record_IsEmpty r \<longrightarrow>
      Record_Struct isNil conv r pointer = (if isNil pointer True then None else Some ErrNoRows))"
  by (simp add: Result_Structs_def Record_Struct_def Len_def)

theorem zero_rows_mapping_witness:
  "Result_Structs convertRowsOk [] (Plain (VPtr (Some (VSlice [VPtr (Some (VStruct ''User'' None))]))))
     = (None, Plain (VPtr (Some (VSlice [VPtr (Some (VStruct ''User'' None))])))) \<and>
   Record_Struct empty_IsNil convertOk None (Plain (VPtr (Some (VStruct ''User'' None)))) = Some ErrNoRows \<and>
   Record_Struct empty_IsNil convertOk (Some []) (Plain (VPtr (Some (VPtr None)))) = None"
  using zero_rows_mapping [where convertRows = convertRowsOk
      and xs = "[VPtr (Some (VStruct ''User'' None))]" and r = None and isNil = empty_IsNil
      and conv = convertOk and pointer = "Plain (VPtr (Some (VStruct ''User'' None)))"]
    zero_rows_mapping [where convertRows = convertRowsOk and xs = "[]" and r = "Some []"
      and isNil = empty_IsNil and conv = convertOk and pointer = "Plain (VPtr (Some (VPtr None)))"]
  by (simp add: Record_IsEmpty_def)

text \<open>The claim as stated fails for a non-empty slice of struct values: zero rows mapped
  onto \<^verbatim>\<open>*[]User\<close> holding one item give \<^verbatim>\<open>ErrNoRows\<close>, not nil.\<close>

theorem zero_rows_nonempty_struct_slice_counterexample:
  "fst (Result_Structs convertRowsOk [] (Plain (VPtr (Some (VSlice [VStruct ''User'' None])))))
     = Some ErrNoRows"
  by (simp add: Result_Structs_def Len_def)


subsection \<open>The transaction helper\<close>

text \<open>
  Claim C3, as the code has it. After a successful \<^verbatim>\<open>Begin\<close>: if the closure returns an
  error, or panics with a value that is not nil, the transaction is rolled back and never
  committed, and the result is the rollback's error when the rollback fails, otherwise
  the closure's error, respectively the panic value turned into an error. If the closure
  returns nil, the transaction is committed and never rolled back, and the result is
  what the commit returns: nil when it succeeds, its error when it fails.
\<close>

theorem Transaction_outcomes:
  "(f t = Returns (Some e) \<longrightarrow>
      Transaction (Inr t) f rollback commit =
        (case rollback t of Some e' \<Rightarrow> Some e' | None \<Rightarrow> Some e, [Rollback])) \<and>
   (f t = Panics (Some v) \<longrightarrow>
      Transaction (Inr t) f rollback commit =
        (case rollback t of Some e' \<Rightarrow> Some e' | None \<Rightarrow> Some (Error v), [Rollback])) \<and>
   (f t = Returns None \<longrightarrow>
      Transaction (Inr t) f rollback commit = (commit t, [Commit]))"
  by (auto simp: Transaction_def Let_def split: option.splits)

theorem Transaction_outcomes_witness:
  "Transaction (Inr (1::nat)) (\<lambda>t. Returns (Some (Error ''insert failed''))) (\<lambda>t. None) (\<lambda>t. None)
     = (Some (Error ''insert failed''), [Rollback]) \<and>
   Transaction (Inr (1::nat)) (\<lambda>t. Panics (Some ''index out of range'')) (\<lambda>t. Some (Error ''conn lost'')) (\<lambda>t. None)
     = (Some (Error ''conn lost''), [Rollback]) \<and>
   Transaction (Inr (1::nat)) (\<lambda>t. Returns None) (\<lambda>t. None) (\<lambda>t. None) = (None, [Commit])"
  using Transaction_outcomes [where f = "\<lambda>t. Returns (Some (Error ''insert failed''))" and t = "1::nat"
      and e = "Error ''insert failed''" and rollback = "\<lambda>t. None" and commit = "\<lambda>t. None"]
    Transaction_outcomes [where f = "\<lambda>t. Panics (Some ''index out of range'')" and t = "1::nat"
      and v = "''index out of range''" and rollback = "\<lambda>t. Some (Error ''conn lost'')"
      and commit = "\<lambda>t. None"]
    Transaction_outcomes [where f = "\<lambda>t. Returns None" and t = "1::nat"
      and rollback = "\<lambda>t. None" and commit = "\<lambda>t. None"]
  by simp

text \<open>The claim as stated fails when the closure returns nil and the commit fails: the
  commit's error is returned, not nil.\<close>

theorem Transaction_commit_failure_counterexample:
  "Transaction (Inr (1::nat)) (\<lambda>t. Returns None) (\<lambda>t. None) (\<lambda>t. Some (Error ''commit failed''))
     = (Some (Error ''commit failed''), [Commit])"
  by (simp add: Transaction_def)

subsection \<open>Deleting through the model\<close>

text \<open>
  Claim C4. Let \<open>m'\<close> be the model the delete runs on (the model itself, or the model
  with the given condition added). If soft deleting is not bypassed and the table has a
  soft-delete column, exactly one statement is issued, an update that sets the quoted
  column to the current time under the composed condition, and no delete. If the table
  has no soft-delete column and the composed condition contains \<open>WHERE\<close>, exactly one
  statement is issued, the physical delete. If it has no soft-delete column and the
  condition contains no \<open>WHERE\<close>, the call fails with the usage error and no statement is
  issued: the state is unchanged.
\<close>

theorem Model_Delete_soft_or_physical:
  assumes m': "m' = (case wheres of [] \<Rightarrow> m | w # ws \<Rightarrow> Model_Where m w ws)"
    and cond: "formatCondition db m' False False = (cw, ce, cargs)"
  shows "(\<not> unscoped m' \<and> getSoftFieldNameDeleted db m' \<noteq> '''' \<longrightarrow>
           fst (Model_Delete db m wheres st) =
             DoUpdate db (getLink db m' True) (tables m')
               (QuoteString db (getSoftFieldNameDeleted db m') @ ''=?'') (cw @ ce)
               (VStr (gtimeNow db) # cargs) \<and>
           executed (snd (Model_Delete db m wheres st)) =
             executed st @ [Update (getLink db m' True) (tables m')
               (QuoteString db (getSoftFieldNameDeleted db m') @ ''=?'') (cw @ ce)
               (VStr (gtimeNow db) # cargs)]) \<and>
         (getSoftFieldNameDeleted db m' = '''' \<and> ContainsI (cw @ ce) '' WHERE '' \<longrightarrow>
           fst (Model_Delete db m wheres st) =
             DoDelete db (getLink db m' True) (tables m') (cw @ ce) cargs \<and>
           executed (snd (Model_Delete db m wheres st)) =
             executed st @ [Delete (getLink db m' True) (tables m') (cw @ ce) cargs]) \<and>
         (getSoftFieldNameDeleted db m' = '''' \<and> \<not> ContainsI (cw @ ce) '' WHERE '' \<longrightarrow>
           Model_Delete db m wheres st =
             ((None, Some (Error ''there should be WHERE condition statement for DELETE operation'')), st))"
proof -
  have upd: "executed (checkAndRemoveCache m' s) = executed s" for s
    by (simp add: checkAndRemoveCache_def)
  show ?thesis
    using m' [symmetric] cond
    by (auto simp: Model_Delete_def Let_def upd split: prod.splits)
qed

theorem Model_Delete_soft_or_physical_witness:
  "executed (snd (Model_Delete softDeleteDb userModel [VStr ''id'', VInt 1] emptyState)) =
     [Update 0 ''user'' ''deleted_at=?'' '' WHERE id=?'' [VStr ''2021-01-01 00:00:00'', VInt 1]] \<and>
   executed (snd (Model_Delete emptyDb userModel [VStr ''id'', VInt 1] emptyState)) =
     [Delete 0 ''user'' '' WHERE id=?'' [VInt 1]] \<and>
   Model_Delete emptyDb userModel [] emptyState =
     ((None, Some (Error ''there should be WHERE condition statement for DELETE operation'')), emptyState)"
  using Model_Delete_soft_or_physical [where db = softDeleteDb and m = userModel
      and wheres = "[VStr ''id'', VInt 1]" and st = emptyState
      and m' = "Model_Where userModel (VStr ''id'') [VInt 1]"
      and cw = "'' WHERE id=?''" and ce = "''''" and cargs = "[VInt 1]"]
    Model_Delete_soft_or_physical [where db = emptyDb and m = userModel
      and wheres = "[VStr ''id'', VInt 1]" and st = emptyState
      and m' = "Model_Where userModel (VStr ''id'') [VInt 1]"
      and cw = "'' WHERE id=?''" and ce = "''''" and cargs = "[VInt 1]"]
    Model_Delete_soft_or_physical [where db = emptyDb and m = userModel
      and wheres = "[]" and st = emptyState and m' = userModel
      and cw = "''''" and ce = "''''" and cargs = "[]"]
  by (simp add: softDeleteDb_def emptyDb_def userModel_def Model_Where_def emptyState_def
      ContainsI_def PosI_def Pos_def ToLower_def)

subsection \<open>The query cache inside a transaction\<close>

text \<open>
  Claim C8. For a model bound to a transaction, whatever its cache settings, the select
  is handed to the database exactly once and its result is returned; the cache is left
  as it was, and the result does not depend on what the cache holds.
\<close>

theorem doGetAllBySql_in_transaction_bypasses_cache:
  assumes "tx m \<noteq> None"
  shows "doGetAllBySql db m sql args st =
           (DoGetAll db (getLink db m False) sql (mergeArguments db m args),
            st\<lparr>executed := executed st @
                  [Query (getLink db m False) sql (mergeArguments db m args)]\<rparr>) \<and>
         cache (snd (doGetAllBySql db m sql args st)) = cache st \<and>
         fst (doGetAllBySql db m sql args (st\<lparr>cache := c\<rparr>)) = fst (doGetAllBySql db m sql args st)"
  using assms by (auto simp: doGetAllBySql_def Let_def split: prod.splits)

theorem doGetAllBySql_in_transaction_bypasses_cache_witness:
  "doGetAllBySql emptyDb txModel ''SELECT * FROM user'' [] warmState =
     (([], None), warmState\<lparr>executed := [Query 7 ''SELECT * FROM user'' []]\<rparr>)"
  using doGetAllBySql_in_transaction_bypasses_cache [where m = txModel and db = emptyDb
      and sql = "''SELECT * FROM user''" and args = "[]" and st = warmState]
  by (simp add: txModel_def userModel_def emptyDb_def warmState_def)


subsection \<open>The argument binder\<close>

lemma Pos_at_question: "(Pos_at i s ''?'' \<ge> 0) = (CHR ''?'' \<in> set s)"
  by (induction s arbitrary: i) auto

lemma Contains_question: "Contains s ''?'' = (CHR ''?'' \<in> set s)"
  by (simp add: Contains_def Pos_def Pos_at_question)

lemma Count_append: "Count (xs @ ys) c = Count xs c + Count ys c"
  by (induction xs) (auto simp: Count_def)

lemma Count_none: "c \<notin> set s \<Longrightarrow> Count s c = 0"
  by (induction s) (auto simp: Count_def)

lemma Count_Repeat: "Count (Repeat '',?'' n) CHR ''?'' = n"
  by (induction n) (auto simp: Count_def Repeat_def)

lemma Count_holders: "0 < n \<Longrightarrow> Count (holders n) CHR ''?'' = n"
  using Count_Repeat [of "n - 1"] by (simp add: holders_def Count_def)

lemma holders_one: "holders (Suc 0) = ''?''"
  by (simp add: holders_def Repeat_def)

lemma replaceHolder_replaced: "replaceHolder i l c True h s = (s, h)"
  by (induction s) auto

lemma replaceHolder_miss:
  "int c + int (Count s CHR ''?'') \<le> int i + h \<Longrightarrow> replaceHolder i l c False h s = (s, h)"
proof (induction s arbitrary: c)
  case Nil
  then show ?case by simp
next
  case (Cons x xs)
  show ?case
  proof (cases "x = CHR ''?''")
    case True
    with Cons.prems have "int (Suc c) + int (Count xs CHR ''?'') \<le> int i + h"
      by (simp add: Count_def)
    from Cons.IH [OF this] True Cons.prems show ?thesis
      by (simp add: Count_def)
  next
    case False
    with Cons.prems have "int c + int (Count xs CHR ''?'') \<le> int i + h"
      by (simp add: Count_def)
    from Cons.IH [OF this] False show ?thesis by simp
  qed
qed

lemma replaceHolder_hit:
  "int c + int (Count P CHR ''?'') = int i + h \<Longrightarrow>
   replaceHolder i l c False h (P @ CHR ''?'' # R) = (P @ holders l @ R, h + int l - 1)"
proof (induction P arbitrary: c)
  case Nil
  then show ?case
    by (simp add: Count_def holders_def replaceHolder_replaced)
next
  case (Cons x xs)
  show ?case
  proof (cases "x = CHR ''?''")
    case True
    with Cons.prems have "int (Suc c) + int (Count xs CHR ''?'') = int i + h"
      by (simp add: Count_def)
    from Cons.IH [OF this] True Cons.prems show ?thesis
      by (simp add: Count_def)
  next
    case False
    with Cons.prems have "int c + int (Count xs CHR ''?'') = int i + h"
      by (simp add: Count_def)
    from Cons.IH [OF this] False show ?thesis by simp
  qed
qed

lemma spec_sql_Nil: "spec_sql s [] = s"
  by (cases s) auto

lemma spec_sql_no_holder: "CHR ''?'' \<notin> set s \<Longrightarrow> spec_sql s as = s"
  by (induction s as rule: spec_sql.induct) auto

lemma spec_sql_split:
  "CHR ''?'' \<notin> set R1 \<Longrightarrow>
   spec_sql (R1 @ CHR ''?'' # R2) (a # as) = R1 @ holders (length (spec_values a)) @ spec_sql R2 as"
  by (induction R1) auto

lemma expanded_Some:
  "expanded a = Some xs \<Longrightarrow>
   Kind (indirect a) = KSlice \<and> \<not> isBytes a \<and> Elements (indirect a) = xs \<and>
   Len (indirect a) = length xs \<and> spec_values a = xs"
  by (auto simp: expanded_def spec_values_def Len_def split: if_splits)

lemma isBytes_Kind: "isBytes a \<Longrightarrow> Kind (indirect a) = KSlice"
  by (cases a) auto

lemma expanded_None_step:
  "expanded a = None \<Longrightarrow>
   handleArguments_loop n index h sql newArgs (a # as) =
   handleArguments_loop n (Suc index) h sql (newArgs @ spec_values a) as \<and>
   length (spec_values a) = 1"
  by (auto simp: expanded_def spec_values_def isBytes_Kind split: if_splits)

lemma loop_step:
  assumes inv: "int (Count P CHR ''?'') = int index + h \<or>
      (CHR ''?'' \<notin> set R \<and> int (Count P CHR ''?'') \<le> int index + h)"
    and ne: "expanded a \<noteq> Some []"
    and noskip: "\<not> (n = 1 \<and> expanded a \<noteq> None \<and> Count (P @ R) CHR ''?'' = Len (indirect a))"
  shows "\<exists>P' R' h'.
      handleArguments_loop n index h (P @ R) newArgs (a # as) =
        handleArguments_loop n (Suc index) h' (P' @ R') (newArgs @ spec_values a) as \<and>
      (int (Count P' CHR ''?'') = int (Suc index) + h' \<or>
        (CHR ''?'' \<notin> set R' \<and> int (Count P' CHR ''?'') \<le> int (Suc index) + h')) \<and>
      (\<forall>bs. P' @ spec_sql R' bs = P @ spec_sql R (a # bs))"
proof (cases "CHR ''?'' \<in> set R")
  case True
  then obtain R1 R2 where R: "R = R1 @ CHR ''?'' # R2" and R1: "CHR ''?'' \<notin> set R1"
    by (meson split_list_first)
  from inv True have cnt: "int (Count P CHR ''?'') = int index + h" by simp
  have cnt1: "int 0 + int (Count (P @ R1) CHR ''?'') = int index + h"
    using cnt R1 by (simp add: Count_append Count_none)
  show ?thesis
  proof (cases "expanded a")
    case None
    let ?P = "P @ R1 @ ''?''"
    have "handleArguments_loop n index h (P @ R) newArgs (a # as) =
        handleArguments_loop n (Suc index) h (?P @ R2) (newArgs @ spec_values a) as"
      using expanded_None_step [OF None] R by simp
    moreover have "int (Count ?P CHR ''?'') = int (Suc index) + h"
      using cnt R1 by (simp add: Count_append Count_none) (simp add: Count_def)
    moreover have "\<forall>bs. ?P @ spec_sql R2 bs = P @ spec_sql R (a # bs)"
      using expanded_None_step [OF None, of n index h "[]" "[]" "[]"] R R1
      by (simp add: spec_sql_split holders_one)
    ultimately show ?thesis by blast
  next
    case (Some xs)
    note e = expanded_Some [OF Some]
    from ne Some have xs: "xs \<noteq> []" by simp
    let ?l = "length xs"
    let ?P = "P @ R1 @ holders ?l"
    have hit: "replaceHolder index ?l 0 False h (P @ R) = (?P @ R2, h + int ?l - 1)"
      using replaceHolder_hit [OF cnt1, of ?l R2] R by simp
    have cont: "Contains (P @ R) ''?''"
      using True by (simp add: Contains_question)
    have "handleArguments_loop n index h (P @ R) newArgs (a # as) =
        handleArguments_loop n (Suc index) (h + int ?l - 1) (?P @ R2) (newArgs @ spec_values a) as"
      using e xs noskip Some hit by (auto simp del: append_assoc)
    moreover have "int (Count ?P CHR ''?'') = int (Suc index) + (h + int ?l - 1)"
      using cnt R1 xs by (simp add: Count_append Count_none Count_holders)
    moreover have "\<forall>bs. ?P @ spec_sql R2 bs = P @ spec_sql R (a # bs)"
      using e R R1 by (simp add: spec_sql_split)
    ultimately show ?thesis by blast
  qed
next
  case False
  from inv have le: "int (Count P CHR ''?'') \<le> int index + h" by auto
  have miss: "replaceHolder index l 0 False h (P @ R) = (P @ R, h)" for l
    using le False by (intro replaceHolder_miss) (simp add: Count_append Count_none)
  have ncont: "\<not> Contains (P @ R) ''?'' \<or> CHR ''?'' \<in> set P"
    using False by (simp add: Contains_question)
  have step: "handleArguments_loop n index h (P @ R) newArgs (a # as) =
        handleArguments_loop n (Suc index) h (P @ R) (newArgs @ spec_values a) as"
  proof (cases "expanded a")
    case None
    then show ?thesis using expanded_None_step by blast
  next
    case (Some xs)
    note e = expanded_Some [OF Some]
    from ne Some have xs: "xs \<noteq> []" by simp
    show ?thesis
      using e xs noskip Some miss by auto
  qed
  moreover have "CHR ''?'' \<notin> set R \<and> int (Count P CHR ''?'') \<le> int (Suc index) + h"
    using False le by simp
  moreover have "\<forall>bs. P @ spec_sql R bs = P @ spec_sql R (a # bs)"
    using False by (simp add: spec_sql_no_holder)
  ultimately show ?thesis by blast
qed

lemma loop_spec:
  assumes "n \<noteq> 1" and "\<forall>a\<in>set as. expanded a \<noteq> Some []"
    and "int (Count P CHR ''?'') = int index + h \<or>
      (CHR ''?'' \<notin> set R \<and> int (Count P CHR ''?'') \<le> int index + h)"
  shows "handleArguments_loop n index h (P @ R) newArgs as =
         (P @ spec_sql R as, newArgs @ spec_args as)"
  using assms
proof (induction as arbitrary: P R index h newArgs)
  case Nil
  then show ?case by (simp add: spec_sql_Nil spec_args_def)
next
  case (Cons a as)
  from Cons.prems have ne: "expanded a \<noteq> Some []" and rest: "\<forall>a\<in>set as. expanded a \<noteq> Some []"
    by simp_all
  from Cons.prems(1) have noskip:
    "\<not> (n = 1 \<and> expanded a \<noteq> None \<and> Count (P @ R) CHR ''?'' = Len (indirect a))" by simp
  from loop_step [OF Cons.prems(3) ne noskip, of newArgs as]
  obtain P' R' h' where
    st: "handleArguments_loop n index h (P @ R) newArgs (a # as) =
        handleArguments_loop n (Suc index) h' (P' @ R') (newArgs @ spec_values a) as"
    and inv': "int (Count P' CHR ''?'') = int (Suc index) + h' \<or>
        (CHR ''?'' \<notin> set R' \<and> int (Count P' CHR ''?'') \<le> int (Suc index) + h')"
    and sq: "\<forall>bs. P' @ spec_sql R' bs = P @ spec_sql R (a # bs)"
    by blast
  from Cons.IH [OF Cons.prems(1) rest inv', of "newArgs @ spec_values a"] st sq
  show ?case by (simp add: spec_args_def)
qed

text \<open>
  Claim C1, as the code has it. When no argument is an empty slice, the binder returns
  the arguments with every slice replaced by its elements, in order, and the text in
  which the placeholder of every slice of \<open>N\<close> elements has become \<open>N\<close> placeholders;
  the one exception is a slice that is the only argument while the text already has
  exactly as many placeholders as the slice has elements: then the text is left as it is.
\<close>

theorem handleArguments_expands_slices:
  assumes "\<forall>a\<in>set args. expanded a \<noteq> Some []"
  shows "handleArguments sql args =
     (if \<exists>a. args = [a] \<and> expanded a \<noteq> None \<and> Count sql CHR ''?'' = Len (indirect a)
      then (sql, spec_args args)
      else (spec_sql sql args, spec_args args))"
proof (cases "length args = 1")
  case False
  have "handleArguments_loop (length args) 0 0 ([] @ sql) [] args =
        ([] @ spec_sql sql args, [] @ spec_args args)"
    by (rule loop_spec [OF False assms]) (simp add: Count_def)
  then have run: "handleArguments sql args = (spec_sql sql args, spec_args args)"
    by (simp add: handleArguments_def)
  from False have neg: "\<not> (\<exists>a. args = [a] \<and> expanded a \<noteq> None \<and>
      Count sql CHR ''?'' = Len (indirect a))" by auto
  show ?thesis
    by (simp only: neg if_False run)
next
  case True
  then obtain a where args: "args = [a]" by (cases args) auto
  from assms args have ne: "expanded a \<noteq> Some []" by simp
  show ?thesis
  proof (cases "expanded a \<noteq> None \<and> Count sql CHR ''?'' = Len (indirect a)")
    case True
    then obtain xs where xs: "expanded a = Some xs" by auto
    note e = expanded_Some [OF xs]
    from ne xs have "xs \<noteq> []" by simp
    with e True args show ?thesis
      by (simp add: handleArguments_def spec_args_def)
  next
    case False
    have inv: "int (Count [] CHR ''?'') = int 0 + 0 \<or>
        (CHR ''?'' \<notin> set sql \<and> int (Count [] CHR ''?'') \<le> int 0 + 0)"
      by (simp add: Count_def)
    from False have noskip: "\<not> (Suc 0 = 1 \<and> expanded a \<noteq> None \<and>
        Count ([] @ sql) CHR ''?'' = Len (indirect a))" by simp
    from loop_step [OF inv ne noskip, of "[]" "[]"]
    obtain P' R' h' where
      st: "handleArguments_loop (Suc 0) 0 0 ([] @ sql) [] [a] =
          handleArguments_loop (Suc 0) (Suc 0) h' (P' @ R') ([] @ spec_values a) []"
      and sq: "\<forall>bs. P' @ spec_sql R' bs = [] @ spec_sql sql (a # bs)"
      by blast
    from sq have pr: "P' @ R' = spec_sql sql [a]"
      using spec_sql_Nil [of R'] by (metis append_Nil)
    have "handleArguments sql args = handleArguments_loop (Suc 0) 0 0 ([] @ sql) [] [a]"
      by (simp only: handleArguments_def args append_Nil length_Cons list.size)
    also have "\<dots> = handleArguments_loop (Suc 0) (Suc 0) h' (P' @ R') ([] @ spec_values a) []"
      by (rule st)
    also have "\<dots> = (P' @ R', spec_values a)"
      by simp
    also have "\<dots> = (spec_sql sql args, spec_args args)"
      using pr args by (simp add: spec_args_def)
    finally have run: "handleArguments sql args = (spec_sql sql args, spec_args args)" .
    from False args have neg: "\<not> (\<exists>a. args = [a] \<and> expanded a \<noteq> None \<and>
        Count sql CHR ''?'' = Len (indirect a))" by auto
    show ?thesis
      by (simp only: neg if_False run)
  qed
qed

theorem handleArguments_expands_slices_witness:
  "handleArguments ''a=? AND id IN (?) AND b IN (?)''
     [VStr ''x'', VSlice [VInt 1, VInt 2, VInt 3], VPtr (Some (VSlice [VInt 7, VInt 8]))] =
     (''a=? AND id IN (?,?,?) AND b IN (?,?)'',
      [VStr ''x'', VInt 1, VInt 2, VInt 3, VInt 7, VInt 8]) \<and>
   handleArguments ''SELECT ?+?'' [VSlice [VInt 1, VInt 2]] = (''SELECT ?+?'', [VInt 1, VInt 2])"
  using handleArguments_expands_slices [of
      "[VStr ''x'', VSlice [VInt 1, VInt 2, VInt 3], VPtr (Some (VSlice [VInt 7, VInt 8]))]"
      "''a=? AND id IN (?) AND b IN (?)''"]
    handleArguments_expands_slices [of "[VSlice [VInt 1, VInt 2]]" "''SELECT ?+?''"]
  by (simp add: expanded_def spec_args_def spec_values_def holders_def Repeat_def Count_def Len_def)

text \<open>The claim as stated fails when the slice is not the only argument: the text has
  two placeholders and the slice two elements, and the slice is expanded all the same.\<close>

theorem handleArguments_no_skip_counterexample:
  "Count ''id IN (?) AND b = ?'' CHR ''?'' = length [VInt 1, VInt 2] \<and>
   handleArguments ''id IN (?) AND b = ?'' [VSlice [VInt 1, VInt 2], VInt 3] =
     (''id IN (?,?) AND b = ?'', [VInt 1, VInt 2, VInt 3])"
  by (simp add: handleArguments_def Count_def Len_def Contains_def Pos_def Repeat_def)










subsection \<open>Conditions from a key and a value\<close>

lemma holder_not_word: "\<not> isWordChar CHR ''?''"
  by (simp add: isWordChar_def)

lemma regularFieldName_no_holder: "regularFieldName key \<Longrightarrow> CHR ''?'' \<notin> set key"
  using holder_not_word by (auto simp: regularFieldName_def list_all_iff)

lemma doQuoteWord_no_holder:
  "CHR ''?'' \<notin> set key \<Longrightarrow> CHR ''?'' \<notin> set l \<Longrightarrow> CHR ''?'' \<notin> set r \<Longrightarrow>
   Count (doQuoteWord key l r) CHR ''?'' = 0"
  by (simp add: doQuoteWord_def Count_append Count_none)

text \<open>
  Claim C5, as the code has it. For a key that is a plain field name, with the key quoted
  by the database's quote characters (which contain no \<open>?\<close>) and joined to a non-empty
  buffer by \<open>AND\<close>: a nil value appends the quoted key followed by \<open>IS NULL\<close> and adds no
  argument; a slice value appends the quoted key followed by \<open>IN(?)\<close>, written without a
  space before the parenthesis, and adds the slice as one argument.
\<close>

theorem formatWhereKeyValue_nil_and_slice:
  assumes "regularFieldName key"
    and "CHR ''?'' \<notin> set (fst chars)" and "CHR ''?'' \<notin> set (snd chars)"
  shows "formatWhereKeyValue chars IsNil IsEmpty buffer newArgs key VNil =
           ((if buffer = [] then [] else buffer @ '' AND '') @
              doQuoteWord key (fst chars) (snd chars) @ '' IS NULL'', newArgs) \<and>
         formatWhereKeyValue chars IsNil IsEmpty buffer newArgs key (VSlice xs) =
           ((if buffer = [] then [] else buffer @ '' AND '') @
              doQuoteWord key (fst chars) (snd chars) @ '' IN(?)'', newArgs @ [VSlice xs])"
  using assms doQuoteWord_no_holder [OF regularFieldName_no_holder [OF assms(1)] assms(2,3)]
  by (simp add: formatWhereKeyValue_def Let_def)

theorem formatWhereKeyValue_nil_and_slice_witness:
  "formatWhereKeyValue ('''', '''') empty_IsNil simpleIsEmpty '''' [] ''id'' VNil =
     (''id IS NULL'', []) \<and>
   formatWhereKeyValue ('''', '''') empty_IsNil simpleIsEmpty '''' [] ''id''
     (VSlice [VInt 1, VInt 2, VInt 3]) = (''id IN(?)'', [VSlice [VInt 1, VInt 2, VInt 3]])"
  using formatWhereKeyValue_nil_and_slice [where key = "''id''" and chars = "('''', '''')"
      and IsNil = empty_IsNil and IsEmpty = simpleIsEmpty and buffer = "''''" and newArgs = "[]"
      and xs = "[VInt 1, VInt 2, VInt 3]"]
  by (simp add: regularFieldName_def isWordChar_def doQuoteWord_def quoteWordReg_def ContainsAny_def)

text \<open>The claim as stated fails on the text of the slice clause: the map entry
  \<open>id \<mapsto> [1,2,3]\<close> composes to \<open>id IN(?)\<close>, not to \<open>id IN (?)\<close>.\<close>

theorem formatWhereKeyValue_slice_text_counterexample:
  "fst (formatWhereKeyValue ('''', '''') empty_IsNil simpleIsEmpty '''' [] ''id''
     (VSlice [VInt 1, VInt 2, VInt 3])) = ''id IN(?)'' \<and>
   fst (formatWhereKeyValue ('''', '''') empty_IsNil simpleIsEmpty '''' [] ''id''
     (VSlice [VInt 1, VInt 2, VInt 3])) \<noteq> ''id IN (?)''"
  by (simp add: formatWhereKeyValue_def doQuoteWord_def quoteWordReg_def isWordChar_def
      ContainsAny_def Count_def)


subsection \<open>The weighted node selector\<close>




















end
